theory Spec2Isabelle
  imports Complex_Main "HOL-Library.AList" "HOL-Library.Sublist"
begin

section \<open>D-Foundations internal model (geolib/models/dfoundations/internal.py)\<close>

text \<open>
  Python objects are modelled as records, the IntEnum classes as datatypes with their
  integer value given by a separate function, and methods that mutate \<open>self\<close> as functions
  that take the object and return the updated one next to the method's result. Python
  floats are only copied by the methods modelled here (never computed with), so they are
  represented by \<open>real\<close>.
\<close>

subsection \<open>Enumerations\<close>

datatype Bool = FALSE | TRUE

datatype TimeOrderType =
    CPT_EXCAVATION_INSTALL
  | INSTALL_CPT_EXCAVATION
  | EXCAVATION_CPT_INSTALL
  | EXCAVATION_INSTALL_CPT
  | INSTALL_EXCAVATION_CPT
  | CPT_INSTALL_EXCAVATION
  | CPT_BEFORE_AND_AFTER_INSTALL

datatype MainCalculationType = PRELIMINARY_DESIGN | VERIFICATION_DESIGN

text \<open>
  \<open>SubCalculationType\<close> has a member \<open>VERIFICATION_DESIGN\<close> of its own; its
  members carry the prefix \<open>SUB_\<close> here to keep them apart from those of
  \<open>MainCalculationType\<close>.
\<close>

datatype SubCalculationType =
    SUB_VERIFICATION_DESIGN
  | SUB_VERIFICATION_COMPLETE
  | SUB_INDICATION_BEARING_CAPACITY
  | SUB_BEARING_CAPACITY_AT_FIXED_PILETIP_LEVELS
  | SUB_PILETIP_LEVELS_AND_NET_BEARING_CAPACITY
  | SUB_UNSUPPORTED

fun SubCalculationType_value :: "SubCalculationType \<Rightarrow> int" where
  "SubCalculationType_value SUB_VERIFICATION_DESIGN = 0"
| "SubCalculationType_value SUB_VERIFICATION_COMPLETE = 1"
| "SubCalculationType_value SUB_INDICATION_BEARING_CAPACITY = 2"
| "SubCalculationType_value SUB_BEARING_CAPACITY_AT_FIXED_PILETIP_LEVELS = 3"
| "SubCalculationType_value SUB_PILETIP_LEVELS_AND_NET_BEARING_CAPACITY = 4"
| "SubCalculationType_value SUB_UNSUPPORTED = 7"

datatype error = NameError | IndexError

subsection \<open>DFoundationsNenPileResults.header_lines\<close>

text \<open>
  The class method ignores the class it is called on and returns the literal 3.
\<close>

definition DFoundationsNenPileResults_header_lines :: "'cls \<Rightarrow> int" where
  "DFoundationsNenPileResults_header_lines cls = 3"

subsection \<open>CPTList.add_cpt\<close>

text \<open>
  Of the fields of \<open>CPT\<close> only \<open>cptname\<close> and \<open>timeorder_type\<close> are named; the
  remaining fields live in the extension part of the record, which \<open>add_cpt\<close> never
  touches.
\<close>

record CPT =
  cptname :: string
  timeorder_type :: TimeOrderType

record 'a CPTList =
  cpt_collection :: "'a CPT_scheme list"

text \<open>
  The loop assigns \<open>cpt.timeorder_type\<close> to every stored CPT, then the new CPT is
  appended and the last index is returned. Should \<open>cpt\<close> be one of the stored
  objects, the loop assigns its own value to it, so reading \<open>cpt.timeorder_type\<close> once
  gives the same result as reading it in every iteration.
\<close>

definition add_cpt :: "'a CPTList \<Rightarrow> 'a CPT_scheme \<Rightarrow> 'a CPTList \<times> int" where
  "add_cpt self cpt =
     (let forced = map (\<lambda>existing_cpt. existing_cpt\<lparr>timeorder_type := timeorder_type cpt\<rparr>)
                       (cpt_collection self);
          self' = self\<lparr>cpt_collection := forced @ [cpt]\<rparr>
      in (self', int (length (cpt_collection self')) - 1))"

subsection \<open>Profiles.add_profile_if_unique\<close>

record Profile =
  name :: string
  excavation_level :: real

record 'a Profiles =
  profiles :: "'a Profile_scheme list"

text \<open>
  The \<open>for\<close> loop of \<open>add_profile_if_unique\<close>: each stored profile first gets the new
  profile's excavation level, then its name is compared. The result is the list as the
  loop leaves it and whether \<open>NameError\<close> was raised.
\<close>

fun add_profile_loop ::
  "'a Profile_scheme \<Rightarrow> 'a Profile_scheme list \<Rightarrow> 'a Profile_scheme list \<times> bool" where
  "add_profile_loop profile [] = ([], False)"
| "add_profile_loop profile (added_profile # rest) =
     (let added_profile' = added_profile\<lparr>excavation_level := excavation_level profile\<rparr>
      in if name profile = name added_profile' then (added_profile' # rest, True)
         else (case add_profile_loop profile rest of
                 (rest', raised) \<Rightarrow> (added_profile' # rest', raised)))"

definition add_profile_if_unique ::
  "'a Profiles \<Rightarrow> 'a Profile_scheme \<Rightarrow> 'a Profiles \<times> (error + 'a Profile_scheme)" where
  "add_profile_if_unique self profile =
     (case add_profile_loop profile (profiles self) of
        (ps, True) \<Rightarrow> (self\<lparr>profiles := ps\<rparr>, Inl NameError)
      | (ps, False) \<Rightarrow> (self\<lparr>profiles := ps @ [profile]\<rparr>, Inr profile))"

subsection \<open>CalculationType.__init__\<close>

record CalculationType =
  main_calculationtype :: MainCalculationType
  sub_calculationtype :: SubCalculationType

text \<open>
  The inherited constructor stores each keyword argument that is given and the declared
  default otherwise. The keyword arguments are optional values of the fields' own types.
\<close>

definition CalculationType_super_init ::
  "MainCalculationType option \<Rightarrow> SubCalculationType option \<Rightarrow> CalculationType" where
  "CalculationType_super_init main_kw sub_kw =
     \<lparr>main_calculationtype = (case main_kw of None \<Rightarrow> PRELIMINARY_DESIGN | Some m \<Rightarrow> m),
      sub_calculationtype =
        (case sub_kw of None \<Rightarrow> SUB_INDICATION_BEARING_CAPACITY | Some s \<Rightarrow> s)\<rparr>"

definition CalculationType_init ::
  "MainCalculationType option \<Rightarrow> SubCalculationType option \<Rightarrow> CalculationType" where
  "CalculationType_init main_kw sub_kw =
     (let self = CalculationType_super_init main_kw sub_kw
      in if SubCalculationType_value (sub_calculationtype self) \<ge> 2
         then self\<lparr>main_calculationtype := PRELIMINARY_DESIGN\<rparr>
         else self\<lparr>main_calculationtype := VERIFICATION_DESIGN\<rparr>)"

subsection \<open>CalculationOptions.__init__\<close>

text \<open>
  Keyword arguments are a dictionary from field names to Python values. A dictionary is
  an association list in insertion order: assigning to a key that is present replaces
  its value in place, assigning to a new key appends it (\<open>AList.update\<close>). Of the
  Python values only \<open>None\<close> and the members of \<open>Bool\<close> are told apart; every
  other value is carried as \<open>PyOther\<close>.
\<close>

datatype 'a pyvalue = PyNone | PyBool Bool | PyOther 'a

datatype fieldkind = BoolField | OtherField

datatype init_error = TypeError | ValidationError

type_synonym 'a pydict = "(string \<times> 'a) list"

text \<open>
  Python's \<open>str.replace(old, new)\<close>: the occurrences of \<open>old\<close> are replaced from
  left to right without overlap; an empty \<open>old\<close> matches before every character and at
  the end.
\<close>

function str_replace :: "string \<Rightarrow> string \<Rightarrow> string \<Rightarrow> string" where
  "str_replace old new [] = (if old = [] then new else [])"
| "str_replace old new (c # cs) =
     (if old = [] then new @ c # str_replace old new cs
      else if prefix old (c # cs) then new @ str_replace old new (drop (length old) (c # cs))
      else c # str_replace old new cs)"
  by pat_completeness auto
termination
  by (relation "measure (\<lambda>(old, new, s). length s)") auto

definition find_toggle :: "string \<Rightarrow> string" where
  "find_toggle field = ''is_'' @ str_replace ''factor_'' [] field @ ''_overruled''"

text \<open>
  The declared fields of \<open>CalculationOptions\<close> in declaration order (the keys of
  \<open>model_fields\<close>), each with whether its declared type is \<open>Bool\<close>.
\<close>

definition CalculationOptions_model_fields :: "(string \<times> fieldkind) list" where
  "CalculationOptions_model_fields =
     [(''is_rigid'', BoolField),
      (''max_allowed_settlement_lim_state_str'', OtherField),
      (''max_allowed_rel_rotation_lim_state_str'', OtherField),
      (''max_allowed_settlement_lim_state_serv'', OtherField),
      (''max_allowed_rel_rotation_lim_state_serv'', OtherField),
      (''is_xi3_overruled'', BoolField),
      (''factor_xi3'', OtherField),
      (''is_xi4_overruled'', BoolField),
      (''factor_xi4'', OtherField),
      (''is_gamma_b_overruled'', BoolField),
      (''factor_gamma_b'', OtherField),
      (''is_gamma_s_overruled'', BoolField),
      (''factor_gamma_s'', OtherField),
      (''is_gamma_fnk_overruled'', BoolField),
      (''factor_gamma_fnk'', OtherField),
      (''is_area_overruled'', BoolField),
      (''area'', OtherField),
      (''is_qbmax_overruled'', BoolField),
      (''qbmax'', OtherField),
      (''is_qcza_low_overruled'', BoolField),
      (''qcza_low'', OtherField),
      (''is_qcza_high_overruled'', BoolField),
      (''qcza_high'', OtherField),
      (''is_ea_gem_overruled'', BoolField),
      (''ea_gem'', OtherField),
      (''is_suppress_qc_reduction'', BoolField),
      (''is_overrule_excavation'', BoolField),
      (''use_pile_group'', BoolField),
      (''is_write_intermediate_results'', BoolField),
      (''use_interaction_model'', BoolField),
      (''use_almere_rules'', BoolField),
      (''use_extra_almere_rules'', BoolField),
      (''is_gamma_g_str_overruled'', BoolField),
      (''factor_gamma_g_str'', OtherField),
      (''is_gamma_coh_overruled'', BoolField),
      (''factor_gamma_coh'', OtherField),
      (''is_gamma_phi_overruled'', BoolField),
      (''factor_gamma_phi'', OtherField),
      (''is_gamma_fundr_overruled'', BoolField),
      (''factor_gamma_fundr'', OtherField),
      (''is_gamma_g_sls_overruled'', BoolField),
      (''factor_gamma_g_sls'', OtherField),
      (''is_gamma_cc_overruled'', BoolField),
      (''factor_gamma_cc'', OtherField),
      (''is_gamma_ca_overruled'', BoolField),
      (''factor_gamma_ca'', OtherField),
      (''is_keep_length_constant'', BoolField),
      (''use_5_percent_limit'', BoolField),
      (''load_factor_between_limit_1_and_2'', OtherField),
      (''unit_weight_water'', OtherField),
      (''use_compaction'', BoolField),
      (''is_gamma_var_overruled'', BoolField),
      (''factor_gamma_var'', OtherField),
      (''is_gamma_st_overruled'', BoolField),
      (''factor_gamma_st'', OtherField),
      (''is_gamma_gamma_overruled'', BoolField),
      (''factor_gamma_gamma'', OtherField),
      (''surcharge'', OtherField),
      (''use_piezometric_levels'', BoolField)]"

text \<open>The loop of \<open>__init__\<close> over \<open>kwargs.items()\<close> that fills \<open>toggles\<close>.\<close>

fun toggles_loop :: "'a pyvalue pydict \<Rightarrow> 'a pyvalue pydict \<Rightarrow> 'a pyvalue pydict" where
  "toggles_loop [] toggles = toggles"
| "toggles_loop ((field, v) # rest) toggles =
     (if v = PyNone then toggles_loop rest toggles
      else let toggle_field = find_toggle field;
               model_fields = CalculationOptions_model_fields
           in if toggle_field \<in> fst ` set model_fields
              then toggles_loop rest (AList.update toggle_field (PyBool TRUE) toggles)
              else toggles_loop rest toggles)"

text \<open>\<open>d.update(other)\<close> assigns every item of \<open>other\<close> to \<open>d\<close>.\<close>

definition dict_update :: "'a pydict \<Rightarrow> 'a pydict \<Rightarrow> 'a pydict" where
  "dict_update d other = fold (\<lambda>(k, v) acc. AList.update k v acc) other d"

text \<open>
  The inherited constructor (pydantic's \<open>BaseModel.__init__\<close>, reached through
  \<open>DSeriesNoParseSubStructure\<close>) is not part of the file. It is taken as follows: it
  accepts no positional argument; every supplied value is validated for its key, a
  member of \<open>Bool\<close> supplied for a field declared \<open>Bool\<close> being accepted as it is and
  every other validation (coercion, range checks, the treatment of undeclared keys) being
  left to the parameter \<open>validate\<close>, whose result \<open>None\<close> stands for a validation
  error; the constructed object holds, for each declared field, the validated supplied
  value, or the declared default \<open>dflt\<close> when none is supplied.
\<close>

definition validate_field ::
  "(string \<Rightarrow> 'a pyvalue \<Rightarrow> 'a pyvalue option) \<Rightarrow> (string \<times> fieldkind) list
     \<Rightarrow> string \<Rightarrow> 'a pyvalue \<Rightarrow> 'a pyvalue option" where
  "validate_field validate model_fields k v =
     (case (map_of model_fields k, v) of
        (Some BoolField, PyBool b) \<Rightarrow> Some (PyBool b)
      | _ \<Rightarrow> validate k v)"

definition BaseModel_init ::
  "(string \<times> fieldkind) list \<Rightarrow> (string \<Rightarrow> 'a pyvalue)
     \<Rightarrow> (string \<Rightarrow> 'a pyvalue \<Rightarrow> 'a pyvalue option)
     \<Rightarrow> 'b list \<Rightarrow> 'a pyvalue pydict \<Rightarrow> init_error + (string \<Rightarrow> 'a pyvalue option)" where
  "BaseModel_init model_fields dflt validate args data =
     (if args \<noteq> [] then Inl TypeError
      else if list_all (\<lambda>(k, v). validate_field validate model_fields k v \<noteq> None) data
      then Inr (\<lambda>f. if f \<in> fst ` set model_fields
                      then (case map_of data f of
                              None \<Rightarrow> Some (dflt f)
                            | Some v \<Rightarrow> validate_field validate model_fields f v)
                      else None)
      else Inl ValidationError)"

definition CalculationOptions_init ::
  "(string \<Rightarrow> 'a pyvalue) \<Rightarrow> (string \<Rightarrow> 'a pyvalue \<Rightarrow> 'a pyvalue option)
     \<Rightarrow> 'b list \<Rightarrow> 'a pyvalue pydict \<Rightarrow> init_error + (string \<Rightarrow> 'a pyvalue option)" where
  "CalculationOptions_init dflt validate args kwargs =
     (let toggles = toggles_loop kwargs [];
          kwargs' = dict_update kwargs toggles
      in BaseModel_init CalculationOptions_model_fields dflt validate args kwargs')"

text \<open>
  The toggle name as the specification words it: the prefix \<open>factor_\<close> is removed from
  the field name, and the rest is wrapped as \<open>is_..._overruled\<close>. The code's
  \<open>find_toggle\<close> removes every occurrence of \<open>factor_\<close> instead; the two are compared
  below.
\<close>

definition spec_remove_prefix :: "string \<Rightarrow> string \<Rightarrow> string" where
  "spec_remove_prefix p s = (if prefix p s then drop (length p) s else s)"

definition spec_toggle :: "string \<Rightarrow> string" where
  "spec_toggle f = ''is_'' @ spec_remove_prefix ''factor_'' f @ ''_overruled''"

text \<open>The part of a name between \<open>is_\<close> and \<open>_overruled\<close>, if it has that form.\<close>

fun toggle_stem :: "string \<Rightarrow> string option" where
  "toggle_stem n =
     (if prefix ''is_'' n \<and> suffix ''_overruled'' (drop 3 n)
      then Some (take (length n - 13) (drop 3 n)) else None)"

subsection \<open>SoilCollection and the default values of documents\<close>

text \<open>
  Whether two instances share a default list is a question of object identity, so lists
  live in a heap: a map from addresses to list values with a counter for the next free
  address. An instance refers to its list by address. Of \<open>Soil\<close> only \<open>name\<close> is
  named (as \<open>soil_name\<close>, the field name being taken by \<open>Profile\<close>); the declared
  default \<open>Soil.default_soils()\<close> is defined outside the file and is a parameter.
\<close>

record Soil =
  soil_name :: string

record 'a heap =
  cells :: "nat \<Rightarrow> 'a Soil_scheme list"
  fresh :: nat

record SoilCollection =
  soil :: nat

record DFoundationsInputStructure =
  soil_collection :: SoilCollection

definition alloc :: "'a heap \<Rightarrow> 'a Soil_scheme list \<Rightarrow> 'a heap \<times> nat" where
  "alloc h xs = (h\<lparr>cells := (cells h)(fresh h := xs), fresh := Suc (fresh h)\<rparr>, fresh h)"

text \<open>
  Modelled from the spec: the inherited constructor of \<open>SoilCollection\<close> (pydantic's,
  reached through \<open>DSeriesStructureCollection\<close>) is not part of the file. The
  specification requires each default to be freshly constructed per instance, never a
  single shared mutable default: the constructor puts a new list with the declared
  default's elements on the heap.
\<close>

definition SoilCollection_init :: "'a Soil_scheme list \<Rightarrow> 'a heap \<Rightarrow> 'a heap \<times> SoilCollection" where
  "SoilCollection_init default_soils h =
     (case alloc h default_soils of (h', a) \<Rightarrow> (h', \<lparr>soil = a\<rparr>))"

text \<open>
  Modelled from the spec: the inherited constructor of \<open>DFoundationsInputStructure\<close>
  is not part of the file either. Its field \<open>soil_collection\<close> defaults to
  \<open>SoilCollection()\<close>; constructed freshly per instance, as the specification
  requires, it is a new soil collection with a list of its own. The other fields are
  left out.
\<close>

definition DFoundationsInputStructure_init ::
  "'a Soil_scheme list \<Rightarrow> 'a heap \<Rightarrow> 'a heap \<times> DFoundationsInputStructure" where
  "DFoundationsInputStructure_init default_soils h =
     (case SoilCollection_init default_soils h of (h', c) \<Rightarrow> (h', \<lparr>soil_collection = c\<rparr>))"

text \<open>
  \<open>SoilCollection.add_soil_if_unique\<close>: the loop looks for a stored soil of the same
  name; without one the soil is appended to the list object in place.
\<close>

fun name_exists :: "'a Soil_scheme \<Rightarrow> 'a Soil_scheme list \<Rightarrow> bool" where
  "name_exists new_soil [] = False"
| "name_exists new_soil (added_soil # rest) =
     (if soil_name new_soil = soil_name added_soil then True else name_exists new_soil rest)"

definition add_soil_if_unique ::
  "'a heap \<Rightarrow> SoilCollection \<Rightarrow> 'a Soil_scheme \<Rightarrow> 'a heap \<times> (error + 'a Soil_scheme)" where
  "add_soil_if_unique h self new_soil =
     (if name_exists new_soil (cells h (soil self)) then (h, Inl NameError)
      else (h\<lparr>cells := (cells h)(soil self := cells h (soil self) @ [new_soil])\<rparr>,
            Inr new_soil))"

section \<open>D-Stability serializer (geolib/models/dstability/serializer.py)\<close>

subsection \<open>DStabilityBaseSerializer.serialize\<close>

text \<open>
  The declaration of \<open>DStabilityStructure\<close> and the classes of its fields are not part
  of the file, so they are parameters: \<open>hints\<close> is the result of
  \<open>get_filtered_type_hints\<close>, the fields with their declared types in declaration
  order; a declared type is either \<open>list[X]\<close> or a class; \<open>structure_group\<close> and
  \<open>structure_name\<close> are the class methods of that name and \<open>model_dump_json\<close> stands
  for \<open>model_dump_json(indent=4)\<close>. A document is validated against its declaration,
  so \<open>getattr\<close> yields a list for a field declared \<open>list[X]\<close> and a single object
  otherwise: the two kinds of attribute are the two components of a document.
\<close>

datatype 'ty fieldtype = ListOf 'ty | Single 'ty

record 'v document =
  list_attr :: "string \<Rightarrow> 'v list"
  single_attr :: "string \<Rightarrow> 'v"

text \<open>
  The value under a key of the serialized structure is a nested dictionary of file
  contents (a folder) or a file's content.
\<close>

datatype entry = Folder "string pydict" | File string

text \<open>Python's decimal rendering of a non-negative integer, as in \<open>f"{i}"\<close>.\<close>

definition digit_char :: "nat \<Rightarrow> char" where
  "digit_char d = char_of (48 + d)"

function str_of_nat :: "nat \<Rightarrow> string" where
  "str_of_nat n =
     (if n < 10 then [digit_char n] else str_of_nat (n div 10) @ [digit_char (n mod 10)])"
  by pat_completeness auto
termination
  by (relation "measure id") auto

declare str_of_nat.simps [simp del]

definition element_file_name :: "string \<Rightarrow> nat \<Rightarrow> string" where
  "element_file_name sname i =
     (let suffix = (if i > 0 then ''_'' @ str_of_nat i else [])
      in sname @ suffix @ ''.json'')"

text \<open>
  The inner loop over \<open>enumerate(getattr(self.ds, field))\<close>, filling the dictionary
  that was stored under the folder's key just before.
\<close>

definition serialize_folder ::
  "('ty \<Rightarrow> string) \<Rightarrow> ('v \<Rightarrow> string) \<Rightarrow> 'ty \<Rightarrow> 'v list \<Rightarrow> string pydict" where
  "serialize_folder structure_name model_dump_json element_type xs =
     fold (\<lambda>(i, data) folder_dict.
             AList.update (element_file_name (structure_name element_type) i)
                          (model_dump_json data) folder_dict)
          (enumerate 0 xs) []"

text \<open>One iteration of the outer loop.\<close>

fun serialize_field ::
  "('ty \<Rightarrow> string) \<Rightarrow> ('ty \<Rightarrow> string) \<Rightarrow> ('v \<Rightarrow> string) \<Rightarrow> 'v document
     \<Rightarrow> string \<times> 'ty fieldtype \<Rightarrow> entry pydict \<Rightarrow> entry pydict" where
  "serialize_field structure_group structure_name model_dump_json ds
       (field, ListOf element_type) serialized_datastructure =
     (let folder = structure_group element_type
      in AList.update folder
           (Folder (serialize_folder structure_name model_dump_json element_type
                      (list_attr ds field)))
           serialized_datastructure)"
| "serialize_field structure_group structure_name model_dump_json ds
       (field, Single fieldtype) serialized_datastructure =
     (let fn = structure_name fieldtype @ ''.json''
      in AList.update fn (File (model_dump_json (single_attr ds field)))
           serialized_datastructure)"

definition serialize ::
  "('ty \<Rightarrow> string) \<Rightarrow> ('ty \<Rightarrow> string) \<Rightarrow> ('v \<Rightarrow> string)
     \<Rightarrow> (string \<times> 'ty fieldtype) list \<Rightarrow> 'v document \<Rightarrow> entry pydict" where
  "serialize structure_group structure_name model_dump_json hints ds =
     fold (serialize_field structure_group structure_name model_dump_json ds) hints []"

text \<open>The top-level key that the iteration for a field assigns to.\<close>

fun entry_name :: "('ty \<Rightarrow> string) \<Rightarrow> ('ty \<Rightarrow> string) \<Rightarrow> string \<times> 'ty fieldtype \<Rightarrow> string" where
  "entry_name structure_group structure_name (field, ListOf element_type) =
     structure_group element_type"
| "entry_name structure_group structure_name (field, Single fieldtype) =
     structure_name fieldtype @ ''.json''"

text \<open>
  Populating a document: a sequence of attribute assignments, applied in the order
  given.
\<close>

datatype 'v attr_value = Many "'v list" | One 'v

fun setattr :: "string \<times> 'v attr_value \<Rightarrow> 'v document \<Rightarrow> 'v document" where
  "setattr (field, Many xs) ds = ds\<lparr>list_attr := (list_attr ds)(field := xs)\<rparr>"
| "setattr (field, One x) ds = ds\<lparr>single_attr := (single_attr ds)(field := x)\<rparr>"

definition populate :: "(string \<times> 'v attr_value) list \<Rightarrow> 'v document \<Rightarrow> 'v document" where
  "populate assignments ds = fold setattr assignments ds"

text \<open>
  The value that the iteration for a field stores under its key, and the number that a
  string of decimal digits denotes (the inverse of \<open>str_of_nat\<close>).
\<close>

fun entry_value ::
  "('ty \<Rightarrow> string) \<Rightarrow> ('v \<Rightarrow> string) \<Rightarrow> 'v document \<Rightarrow> string \<times> 'ty fieldtype \<Rightarrow> entry" where
  "entry_value structure_name model_dump_json ds (field, ListOf element_type) =
     Folder (serialize_folder structure_name model_dump_json element_type (list_attr ds field))"
| "entry_value structure_name model_dump_json ds (field, Single fieldtype) =
     File (model_dump_json (single_attr ds field))"

definition dec_val :: "string \<Rightarrow> nat" where
  "dec_val s = foldl (\<lambda>a c. 10 * a + (of_char c - 48)) 0 s"

definition first_occurrences :: "'a list \<Rightarrow> 'a list" where
  "first_occurrences xs = rev (remdups (rev xs))"

subsection \<open>DStabilityInputSerializer.write\<close>

text \<open>
  The file system is a map from absolute paths, given as their components, to nodes: a
  directory or a regular file with its content; there are no symbolic links. The root,
  the empty path, is a directory, and relative paths are taken from it. Strings are held
  as their UTF-8 bytes, so \<open>encode("utf-8")\<close> leaves them as they are. Every operation
  returns the file system as it left it, next to the error it raised, if any.
\<close>

datatype node = Dir | RegFile string

datatype os_error = FileNotFoundError | FileExistsError | NotADirectoryError | IsADirectoryError

type_synonym path = "string list"

type_synonym filesystem = "path \<Rightarrow> node option"

definition node_at :: "filesystem \<Rightarrow> path \<Rightarrow> node option" where
  "node_at fs p = (if p = [] then Some Dir else fs p)"

text \<open>
  \<open>filepath / name\<close> of pathlib: the name is split at the slashes, empty components and
  \<open>.\<close> components are dropped, and a name that starts with a slash replaces the path.
  A component \<open>..\<close> is kept as it is: pathlib does not resolve it.
\<close>

fun split_on :: "char \<Rightarrow> string \<Rightarrow> string list" where
  "split_on sep [] = [[]]"
| "split_on sep (c # cs) =
     (if c = sep then [] # split_on sep cs
      else (case split_on sep cs of [] \<Rightarrow> [[c]] | w # ws \<Rightarrow> (c # w) # ws))"

definition path_parts :: "string \<Rightarrow> string list" where
  "path_parts s = filter (\<lambda>w. w \<noteq> [] \<and> w \<noteq> ''.'') (split_on CHR ''/'' s)"

definition path_join :: "path \<Rightarrow> string \<Rightarrow> path" where
  "path_join p s = (if prefix ''/'' s then path_parts s else p @ path_parts s)"

definition encode_utf8 :: "string \<Rightarrow> string" where
  "encode_utf8 s = s"

text \<open>
  The operating system resolves a path component by component, from the root: \<open>..\<close>
  leads to the parent of the directory reached so far (the root is its own parent), any
  other name to the entry of that name in it. Every component but the last must lead to
  a directory; the last one names the place the system call works on, which need not
  exist.
\<close>

definition step :: "path \<Rightarrow> string \<Rightarrow> path" where
  "step cur c = (if c = ''..'' then butlast cur else cur @ [c])"

fun walk :: "filesystem \<Rightarrow> path \<Rightarrow> path \<Rightarrow> os_error + path" where
  "walk fs cur [] = Inr cur"
| "walk fs cur (c # cs) =
     (case node_at fs (step cur c) of
        None \<Rightarrow> Inl FileNotFoundError
      | Some (RegFile _) \<Rightarrow> Inl NotADirectoryError
      | Some Dir \<Rightarrow> walk fs (step cur c) cs)"

definition locate :: "filesystem \<Rightarrow> path \<Rightarrow> os_error + path" where
  "locate fs p =
     (if p = [] then Inr []
      else case walk fs [] (butlast p) of
             Inl e \<Rightarrow> Inl e
           | Inr d \<Rightarrow> Inr (step d (last p)))"

text \<open>The system call \<open>mkdir\<close>, and \<open>Path.is_dir\<close>.\<close>

definition os_mkdir :: "filesystem \<Rightarrow> path \<Rightarrow> filesystem \<times> os_error option" where
  "os_mkdir fs p =
     (case locate fs p of
        Inl e \<Rightarrow> (fs, Some e)
      | Inr q \<Rightarrow> if node_at fs q \<noteq> None then (fs, Some FileExistsError)
                 else (fs(q \<mapsto> Dir), None))"

definition is_dir :: "filesystem \<Rightarrow> path \<Rightarrow> bool" where
  "is_dir fs p = (case locate fs p of Inl e \<Rightarrow> False | Inr q \<Rightarrow> node_at fs q = Some Dir)"

text \<open>
  \<open>Path.mkdir(parents=True, exist_ok=True)\<close>: the system call is tried; when a parent
  is missing, the parent (the path without its last component) is created in the same
  way and the call is tried again; any other error is dropped when the path is a
  directory already.
\<close>

definition mkdir_exist_ok :: "filesystem \<Rightarrow> path \<Rightarrow> filesystem \<times> os_error option" where
  "mkdir_exist_ok fs p =
     (case os_mkdir fs p of
        (fs', None) \<Rightarrow> (fs', None)
      | (fs', Some FileNotFoundError) \<Rightarrow> (fs', Some FileNotFoundError)
      | (fs', Some e) \<Rightarrow> (if is_dir fs' p then (fs', None) else (fs', Some e)))"

function mkdir_parents :: "filesystem \<Rightarrow> path \<Rightarrow> filesystem \<times> os_error option" where
  "mkdir_parents fs p =
     (case os_mkdir fs p of
        (fs', None) \<Rightarrow> (fs', None)
      | (fs', Some FileNotFoundError) \<Rightarrow>
          (if p = [] then (fs', Some FileNotFoundError)
           else (case mkdir_parents fs' (butlast p) of
                   (fs'', Some e) \<Rightarrow> (fs'', Some e)
                 | (fs'', None) \<Rightarrow> mkdir_exist_ok fs'' p))
      | (fs', Some e) \<Rightarrow> (if is_dir fs' p then (fs', None) else (fs', Some e)))"
  by pat_completeness auto
termination
  by (relation "measure (\<lambda>(fs, p). length p)") auto

declare mkdir_parents.simps [simp del]

text \<open>
  \<open>fn.open("wb")\<close> followed by the write of the whole content: the file is created or
  truncated.
\<close>

definition open_wb_write :: "filesystem \<Rightarrow> path \<Rightarrow> string \<Rightarrow> filesystem \<times> os_error option" where
  "open_wb_write fs fn data =
     (case locate fs fn of
        Inl e \<Rightarrow> (fs, Some e)
      | Inr q \<Rightarrow>
          (case node_at fs q of
             Some Dir \<Rightarrow> (fs, Some IsADirectoryError)
           | _ \<Rightarrow> (fs(q \<mapsto> RegFile data), None)))"

text \<open>The inner loop of \<open>write\<close> over the files of a folder.\<close>

fun write_files :: "filesystem \<Rightarrow> path \<Rightarrow> string pydict \<Rightarrow> filesystem \<times> os_error option" where
  "write_files fs folder [] = (fs, None)"
| "write_files fs folder ((ffilename, fdata) # rest) =
     (case open_wb_write fs (path_join folder ffilename) (encode_utf8 fdata) of
        (fs', Some e) \<Rightarrow> (fs', Some e)
      | (fs', None) \<Rightarrow> write_files fs' folder rest)"

text \<open>The outer loop over the items of the serialized structure.\<close>

fun write_entries :: "filesystem \<Rightarrow> path \<Rightarrow> entry pydict \<Rightarrow> filesystem \<times> os_error option" where
  "write_entries fs filepath [] = (fs, None)"
| "write_entries fs filepath ((filename, Folder data) # rest) =
     (let folder = path_join filepath filename
      in case mkdir_parents fs folder of
           (fs1, Some e) \<Rightarrow> (fs1, Some e)
         | (fs1, None) \<Rightarrow>
             (case write_files fs1 folder data of
                (fs2, Some e) \<Rightarrow> (fs2, Some e)
              | (fs2, None) \<Rightarrow> write_entries fs2 filepath rest))"
| "write_entries fs filepath ((filename, File data) # rest) =
     (case open_wb_write fs (path_join filepath filename) (encode_utf8 data) of
        (fs', Some e) \<Rightarrow> (fs', Some e)
      | (fs', None) \<Rightarrow> write_entries fs' filepath rest)"

definition DStabilityInputSerializer_write ::
  "('ty \<Rightarrow> string) \<Rightarrow> ('ty \<Rightarrow> string) \<Rightarrow> ('v \<Rightarrow> string)
     \<Rightarrow> (string \<times> 'ty fieldtype) list \<Rightarrow> 'v document
     \<Rightarrow> filesystem \<Rightarrow> path \<Rightarrow> filesystem \<times> (os_error + path)" where
  "DStabilityInputSerializer_write structure_group structure_name model_dump_json hints ds
       fs filepath =
     (let serialized_datastructure =
            serialize structure_group structure_name model_dump_json hints ds
      in case write_entries fs filepath serialized_datastructure of
           (fs', Some e) \<Rightarrow> (fs', Inl e)
         | (fs', None) \<Rightarrow> (fs', Inr filepath))"













subsection \<open>DStabilityInputZipSerializer.write\<close>








section \<open>Properties of the D-Foundations model\<close>

text \<open>
  C7. \<open>DFoundationsNenPileResults.header_lines()\<close> returns 3 on every invocation,
  whatever class it is called on.
\<close>

theorem header_lines_is_three:
  "DFoundationsNenPileResults_header_lines cls = 3"
  by (simp add: DFoundationsNenPileResults_header_lines_def)

text \<open>
  C8. After \<open>add_cpt\<close>, every CPT of the collection has the time order type of the
  added CPT, the added CPT is the last element, and the returned value is the length of
  the collection minus one, which is the index of the added CPT.
\<close>

theorem add_cpt_forces_timeorder:
  "add_cpt self cpt = (self', r) \<Longrightarrow>
     (\<forall>c \<in> set (cpt_collection self'). timeorder_type c = timeorder_type cpt)
     \<and> cpt_collection self' \<noteq> []
     \<and> last (cpt_collection self') = cpt
     \<and> r = int (length (cpt_collection self')) - 1
     \<and> 0 \<le> r
     \<and> cpt_collection self' ! nat r = cpt
     \<and> length (cpt_collection self') = Suc (length (cpt_collection self))"
  by (auto simp: add_cpt_def Let_def nth_append)

theorem add_cpt_forces_timeorder_witness:
  "add_cpt \<lparr>cpt_collection = [\<lparr>cptname = ''a'', timeorder_type = INSTALL_CPT_EXCAVATION\<rparr>]\<rparr>
           \<lparr>cptname = ''b'', timeorder_type = CPT_EXCAVATION_INSTALL\<rparr>
     = (\<lparr>cpt_collection = [\<lparr>cptname = ''a'', timeorder_type = CPT_EXCAVATION_INSTALL\<rparr>,
                           \<lparr>cptname = ''b'', timeorder_type = CPT_EXCAVATION_INSTALL\<rparr>]\<rparr>, 1)
   \<and> map timeorder_type
         [\<lparr>cptname = ''a'', timeorder_type = CPT_EXCAVATION_INSTALL\<rparr>,
          \<lparr>cptname = ''b'', timeorder_type = CPT_EXCAVATION_INSTALL\<rparr>]
       = [CPT_EXCAVATION_INSTALL, CPT_EXCAVATION_INSTALL]"
proof -
  have run:
    "add_cpt \<lparr>cpt_collection = [\<lparr>cptname = ''a'', timeorder_type = INSTALL_CPT_EXCAVATION\<rparr>]\<rparr>
             \<lparr>cptname = ''b'', timeorder_type = CPT_EXCAVATION_INSTALL\<rparr>
       = (\<lparr>cpt_collection = [\<lparr>cptname = ''a'', timeorder_type = CPT_EXCAVATION_INSTALL\<rparr>,
                             \<lparr>cptname = ''b'', timeorder_type = CPT_EXCAVATION_INSTALL\<rparr>]\<rparr>, 1)"
    by (simp add: add_cpt_def Let_def)
  from add_cpt_forces_timeorder [OF run] run show ?thesis by simp
qed

lemma add_profile_loop_match:
  "\<forall>q \<in> set pre. name q \<noteq> name p \<Longrightarrow> name m = name p \<Longrightarrow>
   add_profile_loop p (pre @ m # post) =
     (map (\<lambda>q. q\<lparr>excavation_level := excavation_level p\<rparr>) pre
        @ m\<lparr>excavation_level := excavation_level p\<rparr> # post, True)"
  by (induction pre) (auto simp: Let_def)

lemma add_profile_loop_no_match:
  "\<forall>q \<in> set ps. name q \<noteq> name p \<Longrightarrow>
   add_profile_loop p ps = (map (\<lambda>q. q\<lparr>excavation_level := excavation_level p\<rparr>) ps, False)"
  by (induction ps) (auto simp: Let_def)

text \<open>
  C9. If a stored profile has the name of the new profile, \<open>add_profile_if_unique\<close>
  raises \<open>NameError\<close> and appends nothing, but the stored profiles up to and including
  the first one with that name have received the new profile's excavation level (the
  ones after it are as before). If no stored profile has that name, all stored profiles
  receive the excavation level, the new profile is appended and returned.
\<close>

theorem add_profile_if_unique_not_atomic:
  "(profiles self = pre @ m # post \<and> (\<forall>q \<in> set pre. name q \<noteq> name p) \<and> name m = name p
      \<longrightarrow> add_profile_if_unique self p =
            (self\<lparr>profiles := map (\<lambda>q. q\<lparr>excavation_level := excavation_level p\<rparr>) pre
                                 @ m\<lparr>excavation_level := excavation_level p\<rparr> # post\<rparr>,
             Inl NameError))
   \<and> ((\<forall>q \<in> set (profiles self). name q \<noteq> name p)
      \<longrightarrow> add_profile_if_unique self p =
            (self\<lparr>profiles := map (\<lambda>q. q\<lparr>excavation_level := excavation_level p\<rparr>)
                                     (profiles self) @ [p]\<rparr>,
             Inr p))"
  by (simp add: add_profile_if_unique_def add_profile_loop_match add_profile_loop_no_match)

theorem add_profile_if_unique_not_atomic_witness:
  "add_profile_if_unique
      \<lparr>profiles = [\<lparr>name = ''a'', excavation_level = 1\<rparr>, \<lparr>name = ''b'', excavation_level = 2\<rparr>,
                   \<lparr>name = ''c'', excavation_level = 3\<rparr>]\<rparr>
      \<lparr>name = ''b'', excavation_level = 9\<rparr>
     = (\<lparr>profiles = [\<lparr>name = ''a'', excavation_level = 9\<rparr>, \<lparr>name = ''b'', excavation_level = 9\<rparr>,
                      \<lparr>name = ''c'', excavation_level = 3\<rparr>]\<rparr>, Inl NameError)
   \<and> add_profile_if_unique
      \<lparr>profiles = [\<lparr>name = ''a'', excavation_level = 1\<rparr>, \<lparr>name = ''c'', excavation_level = 3\<rparr>]\<rparr>
      \<lparr>name = ''b'', excavation_level = 9\<rparr>
     = (\<lparr>profiles = [\<lparr>name = ''a'', excavation_level = 9\<rparr>, \<lparr>name = ''c'', excavation_level = 9\<rparr>,
                      \<lparr>name = ''b'', excavation_level = 9\<rparr>]\<rparr>,
        Inr \<lparr>name = ''b'', excavation_level = 9\<rparr>)"
  using
    add_profile_if_unique_not_atomic
      [of "\<lparr>profiles = [\<lparr>name = ''a'', excavation_level = 1\<rparr>,
                        \<lparr>name = ''b'', excavation_level = 2\<rparr>,
                        \<lparr>name = ''c'', excavation_level = 3\<rparr>]\<rparr>"
          "[\<lparr>name = ''a'', excavation_level = 1\<rparr>]"
          "\<lparr>name = ''b'', excavation_level = 2\<rparr>"
          "[\<lparr>name = ''c'', excavation_level = 3\<rparr>]"
          "\<lparr>name = ''b'', excavation_level = 9\<rparr>"]
    add_profile_if_unique_not_atomic
      [of "\<lparr>profiles = [\<lparr>name = ''a'', excavation_level = 1\<rparr>,
                        \<lparr>name = ''c'', excavation_level = 3\<rparr>]\<rparr>"
          "[]" "\<lparr>name = ''a'', excavation_level = 1\<rparr>" "[]"
          "\<lparr>name = ''b'', excavation_level = 9\<rparr>"]
  by simp

text \<open>
  C10. A freshly constructed \<open>CalculationType\<close> has the main calculation type
  \<open>PRELIMINARY_DESIGN\<close> if the integer value of its sub calculation type is at least 2
  and \<open>VERIFICATION_DESIGN\<close> otherwise, whatever main calculation type the caller
  supplied; the sub calculation type is the supplied one, or the declared default.
\<close>

theorem CalculationType_init_main_from_sub:
  "main_calculationtype (CalculationType_init main_kw sub_kw) =
     (if SubCalculationType_value (sub_calculationtype (CalculationType_init main_kw sub_kw)) \<ge> 2
      then PRELIMINARY_DESIGN else VERIFICATION_DESIGN)
   \<and> sub_calculationtype (CalculationType_init main_kw sub_kw) =
       (case sub_kw of None \<Rightarrow> SUB_INDICATION_BEARING_CAPACITY | Some s \<Rightarrow> s)"
  by (simp add: CalculationType_init_def CalculationType_super_init_def Let_def)

theorem CalculationType_init_main_from_sub_witness:
  "main_calculationtype (CalculationType_init (Some PRELIMINARY_DESIGN) (Some SUB_VERIFICATION_COMPLETE))
     = VERIFICATION_DESIGN
   \<and> main_calculationtype (CalculationType_init (Some VERIFICATION_DESIGN) (Some SUB_UNSUPPORTED))
     = PRELIMINARY_DESIGN
   \<and> main_calculationtype (CalculationType_init (Some VERIFICATION_DESIGN) None)
     = PRELIMINARY_DESIGN"
  using CalculationType_init_main_from_sub [of "Some PRELIMINARY_DESIGN" "Some SUB_VERIFICATION_COMPLETE"]
    CalculationType_init_main_from_sub [of "Some VERIFICATION_DESIGN" "Some SUB_UNSUPPORTED"]
    CalculationType_init_main_from_sub [of "Some VERIFICATION_DESIGN" None]
  by simp

subsection \<open>CalculationOptions\<close>

lemma toggle_stem_wrap: "toggle_stem (''is_'' @ X @ ''_overruled'') = Some X"
  by (simp add: suffix_def)

lemma stems_free_of_factor:
  "list_all (\<lambda>(n, k). case toggle_stem n of None \<Rightarrow> True
                       | Some X \<Rightarrow> str_replace ''factor_'' [] X = X \<and> k = BoolField)
            CalculationOptions_model_fields"
  unfolding CalculationOptions_model_fields_def
  by code_simp


lemma str_replace_prefix:
  "old \<noteq> [] \<Longrightarrow> prefix old s \<Longrightarrow>
   str_replace old new s = new @ str_replace old new (drop (length old) s)"
  by (cases s) auto

lemma model_fields_distinct: "distinct (map fst CalculationOptions_model_fields)"
  unfolding CalculationOptions_model_fields_def by simp

lemma spec_toggle_declared:
  assumes "spec_toggle f \<in> fst ` set CalculationOptions_model_fields"
  shows "find_toggle f = spec_toggle f"
    and "map_of CalculationOptions_model_fields (spec_toggle f) = Some BoolField"
proof -
  from assms obtain k where mem: "(spec_toggle f, k) \<in> set CalculationOptions_model_fields"
    by auto
  have stem: "toggle_stem (spec_toggle f) = Some (spec_remove_prefix ''factor_'' f)"
    unfolding spec_toggle_def by (rule toggle_stem_wrap)
  from stems_free_of_factor mem
  have "case toggle_stem (spec_toggle f) of None \<Rightarrow> True
        | Some X \<Rightarrow> str_replace ''factor_'' [] X = X \<and> k = BoolField"
    by (auto simp: list_all_iff)
  with stem have fixp: "str_replace ''factor_'' [] (spec_remove_prefix ''factor_'' f)
                         = spec_remove_prefix ''factor_'' f"
    and k: "k = BoolField" by simp_all
  show "map_of CalculationOptions_model_fields (spec_toggle f) = Some BoolField"
    using mem k model_fields_distinct by simp
  have "str_replace ''factor_'' [] f = spec_remove_prefix ''factor_'' f"
  proof (cases "prefix ''factor_'' f")
    case True
    then have "str_replace ''factor_'' [] f
        = str_replace ''factor_'' [] (drop (length ''factor_'') f)"
      using str_replace_prefix [of "''factor_''" f "[]"] by simp
    also have "drop (length ''factor_'') f = spec_remove_prefix ''factor_'' f"
      using True by (simp add: spec_remove_prefix_def)
    finally show ?thesis using fixp by simp
  next
    case False
    then have "spec_remove_prefix ''factor_'' f = f" by (simp add: spec_remove_prefix_def)
    with fixp show ?thesis by simp
  qed
  then show "find_toggle f = spec_toggle f"
    by (simp add: find_toggle_def spec_toggle_def)
qed

lemma set_update_subset: "set (AList.update k v al) \<subseteq> insert (k, v) (set al)"
  by (induction al) auto

lemma toggles_loop_values:
  "\<forall>(k, v) \<in> set acc. v = PyBool TRUE \<Longrightarrow>
   \<forall>(k, v) \<in> set (toggles_loop kwargs acc). v = PyBool TRUE"
proof (induction kwargs acc rule: toggles_loop.induct)
  case (1 toggles)
  then show ?case by simp
next
  case (2 field v rest toggles)
  have upd: "\<forall>(k, v) \<in> set (AList.update t (PyBool TRUE) toggles). v = PyBool TRUE" for t
    using "2.prems" set_update_subset [of t "PyBool TRUE" toggles] by auto
  show ?case
    using "2.IH" "2.prems" upd by (auto simp: Let_def)
qed

lemma toggles_loop_keeps:
  "t \<in> fst ` set acc \<Longrightarrow> t \<in> fst ` set (toggles_loop kwargs acc)"
proof (induction kwargs acc rule: toggles_loop.induct)
  case (1 toggles)
  then show ?case by simp
next
  case (2 field v rest toggles)
  have "t \<in> fst ` set (AList.update t' (PyBool TRUE) toggles)" for t'
    using "2.prems" by (simp add: dom_update)
  with 2 show ?case by (simp add: Let_def)
qed

lemma toggles_loop_sets:
  "(f, v) \<in> set kwargs \<Longrightarrow> v \<noteq> PyNone \<Longrightarrow>
   find_toggle f \<in> fst ` set CalculationOptions_model_fields \<Longrightarrow>
   find_toggle f \<in> fst ` set (toggles_loop kwargs acc)"
proof (induction kwargs acc rule: toggles_loop.induct)
  case (1 toggles)
  then show ?case by simp
next
  case (2 field w rest toggles)
  show ?case
  proof (cases "(f, v) = (field, w)")
    case True
    have "find_toggle f \<in> fst ` set (AList.update (find_toggle f) (PyBool TRUE) toggles)"
      by (simp add: dom_update)
    then have "find_toggle f
        \<in> fst ` set (toggles_loop rest (AList.update (find_toggle f) (PyBool TRUE) toggles))"
      by (rule toggles_loop_keeps)
    with True "2.prems" show ?thesis by (simp add: Let_def)
  next
    case False
    with "2.prems" have "(f, v) \<in> set rest" by auto
    with 2 show ?thesis by (simp add: Let_def)
  qed
qed

lemma dict_update_lookup:
  "t \<in> fst ` set other \<Longrightarrow> \<forall>(k, v) \<in> set other. v = x \<Longrightarrow>
   map_of (dict_update d other) t = Some x"
  unfolding dict_update_def
proof (induction other arbitrary: d)
  case Nil
  then show ?case by simp
next
  case (Cons kv other)
  obtain k v where kv: "kv = (k, v)" by (cases kv)
  show ?case
  proof (cases "t \<in> fst ` set other")
    case True
    with Cons show ?thesis by simp
  next
    case False
    with Cons.prems kv have tk: "t = k" and vx: "v = x" by auto
    have keep: "map_of (fold (\<lambda>(k, v) acc. AList.update k v acc) ys e) t = map_of e t"
      if "t \<notin> fst ` set ys" for ys and e :: "(string \<times> 'a) list"
      using that by (induction ys arbitrary: e) (auto simp: update_conv')
    show ?thesis using keep [OF False] by (simp add: kv tk vx update_conv')
  qed
qed

lemma BaseModel_init_field:
  "BaseModel_init model_fields dflt validate args data = Inr obj \<Longrightarrow>
   map_of model_fields t = Some BoolField \<Longrightarrow> map_of data t = Some (PyBool b) \<Longrightarrow>
   obj t = Some (PyBool b)"
proof -
  assume init: "BaseModel_init model_fields dflt validate args data = Inr obj"
    and kind: "map_of model_fields t = Some BoolField"
    and val: "map_of data t = Some (PyBool b)"
  from kind have mem: "t \<in> fst ` set model_fields"
    by (metis domI dom_map_of_conv_image_fst)
  from init have obj:
    "obj = (\<lambda>f. if f \<in> fst ` set model_fields
                then (case map_of data f of
                        None \<Rightarrow> Some (dflt f)
                      | Some v \<Rightarrow> validate_field validate model_fields f v)
                else None)"
    by (simp add: BaseModel_init_def split: if_splits)
  show ?thesis
    unfolding obj using mem kind val by (simp add: validate_field_def)
qed

text \<open>
  C4. Let a keyword argument \<open>f\<close> be passed to the \<open>CalculationOptions\<close>
  constructor with a value other than \<open>None\<close>, and let the name obtained by removing
  the prefix \<open>factor_\<close> from \<open>f\<close> and wrapping the rest as \<open>is_..._overruled\<close> be
  a declared field. Then every object the constructor returns has that toggle field
  equal to \<open>Bool.TRUE\<close>, whatever the keyword arguments say about the toggle field
  itself.
\<close>

theorem CalculationOptions_init_sets_toggle:
  assumes given: "(f, v) \<in> set kwargs" and not_none: "v \<noteq> PyNone"
    and declared: "spec_toggle f \<in> fst ` set CalculationOptions_model_fields"
    and constructed: "CalculationOptions_init dflt validate args kwargs = Inr obj"
  shows "obj (spec_toggle f) = Some (PyBool TRUE)"
proof -
  note eq = spec_toggle_declared [OF declared]
  have "find_toggle f \<in> fst ` set (toggles_loop kwargs [])"
    using given not_none declared eq(1) by (intro toggles_loop_sets) simp_all
  moreover have "\<forall>(k, v) \<in> set (toggles_loop kwargs ([] :: 'a pyvalue pydict)). v = PyBool TRUE"
    by (rule toggles_loop_values) simp
  ultimately have "map_of (dict_update kwargs (toggles_loop kwargs [])) (spec_toggle f)
      = Some (PyBool TRUE)"
    unfolding eq(1) by (rule dict_update_lookup)
  with constructed eq(2) show ?thesis
    unfolding CalculationOptions_init_def Let_def by (rule_tac BaseModel_init_field)
qed

theorem CalculationOptions_init_sets_toggle_witness:
  "spec_toggle ''factor_xi3'' = ''is_xi3_overruled''
   \<and> (\<exists>obj. CalculationOptions_init (\<lambda>_. PyBool FALSE) (\<lambda>k v. Some v) ([] :: unit list)
               [(''is_xi3_overruled'', PyBool FALSE), (''factor_xi3'', PyOther (3::nat))]
             = Inr obj
           \<and> obj ''is_xi3_overruled'' = Some (PyBool TRUE))"
proof -
  let ?kw = "[(''is_xi3_overruled'', PyBool FALSE), (''factor_xi3'', PyOther (3::nat))]"
  have st: "spec_toggle ''factor_xi3'' = ''is_xi3_overruled''"
    by (simp add: spec_toggle_def spec_remove_prefix_def)
  have decl: "spec_toggle ''factor_xi3'' \<in> fst ` set CalculationOptions_model_fields"
    unfolding st by (simp add: CalculationOptions_model_fields_def)
  have vf: "validate_field (\<lambda>k v. Some v) mf k v \<noteq> None"
    for mf k and v :: "nat pyvalue"
    by (simp add: validate_field_def split: option.split fieldkind.split pyvalue.split)
  obtain obj where run:
    "CalculationOptions_init (\<lambda>_. PyBool FALSE) (\<lambda>k v. Some v) ([] :: unit list) ?kw = Inr obj"
    by (simp add: CalculationOptions_init_def BaseModel_init_def list_all_iff vf)
  have "obj (spec_toggle ''factor_xi3'') = Some (PyBool TRUE)"
    by (rule CalculationOptions_init_sets_toggle [OF _ _ decl run, of "PyOther 3"]) simp_all
  with st run show ?thesis by auto
qed

subsection \<open>Default values\<close>

lemma add_soil_if_unique_frame:
  "add_soil_if_unique h self s = (h', r) \<Longrightarrow> a \<noteq> soil self \<Longrightarrow> cells h' a = cells h a"
  by (auto simp: add_soil_if_unique_def split: if_splits)

text \<open>
  C5. Two separately constructed soil collections, and the soil collections of two
  separately constructed input structures, own different list objects, each holding the
  declared default. Adding a soil to the first changes no other list: afterwards the
  second still holds the declared default, and the first holds the default followed by
  the new soil when the call returned, the default when it raised.
\<close>

theorem defaults_not_shared:
  "(SoilCollection_init default_soils h0 = (h1, c1)
      \<and> SoilCollection_init default_soils h1 = (h2, c2)
      \<and> add_soil_if_unique h2 c1 s = (h3, r)
    \<longrightarrow> soil c1 \<noteq> soil c2
        \<and> cells h2 (soil c1) = default_soils \<and> cells h2 (soil c2) = default_soils
        \<and> cells h3 (soil c2) = default_soils
        \<and> (\<forall>a. a \<noteq> soil c1 \<longrightarrow> cells h3 a = cells h2 a)
        \<and> (r = Inr s \<longrightarrow> cells h3 (soil c1) = default_soils @ [s])
        \<and> (r = Inl NameError \<longrightarrow> cells h3 (soil c1) = default_soils))
   \<and> (DFoundationsInputStructure_init default_soils h0 = (h1, d1)
      \<and> DFoundationsInputStructure_init default_soils h1 = (h2, d2)
      \<and> add_soil_if_unique h2 (soil_collection d1) s = (h3, r)
    \<longrightarrow> soil (soil_collection d1) \<noteq> soil (soil_collection d2)
        \<and> cells h2 (soil (soil_collection d2)) = default_soils
        \<and> cells h3 (soil (soil_collection d2)) = default_soils
        \<and> (r = Inr s \<longrightarrow> cells h3 (soil (soil_collection d1)) = default_soils @ [s]))"
  by (auto simp: DFoundationsInputStructure_init_def SoilCollection_init_def alloc_def
        add_soil_if_unique_def split: if_splits)

theorem defaults_not_shared_witness:
  "(case SoilCollection_init [\<lparr>soil_name = ''Sand''\<rparr>] \<lparr>cells = (\<lambda>a. []), fresh = 0\<rparr> of
      (h1, c1) \<Rightarrow>
        (case SoilCollection_init [\<lparr>soil_name = ''Sand''\<rparr>] h1 of
           (h2, c2) \<Rightarrow>
             (case add_soil_if_unique h2 c1 \<lparr>soil_name = ''Clay''\<rparr> of
                (h3, r) \<Rightarrow>
                  (soil c1, soil c2, cells h3 (soil c1), cells h3 (soil c2), r))))
     = (0, 1, [\<lparr>soil_name = ''Sand''\<rparr>, \<lparr>soil_name = ''Clay''\<rparr>], [\<lparr>soil_name = ''Sand''\<rparr>],
        Inr \<lparr>soil_name = ''Clay''\<rparr>)"
proof -
  let ?D = "[\<lparr>soil_name = ''Sand''\<rparr>]"
  let ?h0 = "\<lparr>cells = (\<lambda>a. []), fresh = 0\<rparr> :: unit heap"
  obtain h1 c1 where i1: "SoilCollection_init ?D ?h0 = (h1, c1)"
    by (cases "SoilCollection_init ?D ?h0")
  obtain h2 c2 where i2: "SoilCollection_init ?D h1 = (h2, c2)"
    by (cases "SoilCollection_init ?D h1")
  obtain h3 r where a: "add_soil_if_unique h2 c1 \<lparr>soil_name = ''Clay''\<rparr> = (h3, r)"
    by (cases "add_soil_if_unique h2 c1 \<lparr>soil_name = ''Clay''\<rparr>")
  from i1 have c1: "soil c1 = 0" by (auto simp: SoilCollection_init_def alloc_def)
  from i1 i2 have c2: "soil c2 = 1" by (auto simp: SoilCollection_init_def alloc_def)
  note th = defaults_not_shared [of ?D ?h0 h1 c1 h2 c2 "\<lparr>soil_name = ''Clay''\<rparr>" h3 r,
      THEN conjunct1, rule_format, OF conjI [OF i1 conjI [OF i2 a]]]
  from th have second: "cells h3 (soil c2) = ?D" by simp
  from th have before: "cells h2 (soil c1) = ?D" by simp
  with a have r: "r = Inr \<lparr>soil_name = ''Clay''\<rparr>"
    by (auto simp: add_soil_if_unique_def split: if_splits)
  with th have first: "cells h3 (soil c1) = ?D @ [\<lparr>soil_name = ''Clay''\<rparr>]" by simp
  show ?thesis using i1 i2 a c1 c2 first second r by simp
qed

section \<open>Properties of the D-Stability serializer\<close>

lemma dec_val_snoc: "dec_val (s @ [c]) = 10 * dec_val s + (of_char c - 48)"
  by (simp add: dec_val_def)

lemma dec_val_digit: "d < 10 \<Longrightarrow> of_char (digit_char d) - 48 = d"
  by (simp add: digit_char_def)

lemma dec_val_str_of_nat: "dec_val (str_of_nat n) = n"
proof (induction n rule: str_of_nat.induct)
  case (1 n)
  show ?case
  proof (cases "n < 10")
    case True
    then show ?thesis
      using dec_val_snoc [of "[]" "digit_char n"]
      by (simp add: str_of_nat.simps [of n] dec_val_digit) (simp add: dec_val_def)
  next
    case False
    with 1 have "dec_val (str_of_nat (n div 10)) = n div 10" by simp
    with False show ?thesis
      by (simp add: str_of_nat.simps [of n] dec_val_snoc dec_val_digit)
  qed
qed

lemma str_of_nat_inj: "str_of_nat i = str_of_nat j \<Longrightarrow> i = j"
  by (metis dec_val_str_of_nat)

lemma element_file_name_inj:
  "element_file_name s i = element_file_name s j \<Longrightarrow> i = j"
  by (auto simp: element_file_name_def Let_def split: if_splits dest: str_of_nat_inj)

lemma element_file_name_cases:
  "element_file_name s i =
     (if i = 0 then s @ ''.json'' else s @ ''_'' @ str_of_nat i @ ''.json'')"
  by (simp add: element_file_name_def)

lemma update_fresh: "k \<notin> fst ` set al \<Longrightarrow> AList.update k v al = al @ [(k, v)]"
  by (induction al) auto

lemma fold_update_fresh:
  "distinct (map fst kvs) \<Longrightarrow> fst ` set kvs \<inter> fst ` set acc = {} \<Longrightarrow>
   fold (\<lambda>(k, v). AList.update k v) kvs acc = acc @ kvs"
proof (induction kvs arbitrary: acc)
  case Nil
  then show ?case by simp
next
  case (Cons kv kvs)
  obtain k v where kv: "kv = (k, v)" by (cases kv)
  from Cons.prems kv have fresh: "k \<notin> fst ` set acc" by auto
  have "fst ` set kvs \<inter> fst ` set (acc @ [(k, v)]) = {}"
    using Cons.prems kv by auto
  with Cons have "fold (\<lambda>(k, v). AList.update k v) kvs (acc @ [(k, v)]) = (acc @ [(k, v)]) @ kvs"
    by simp
  with fresh show ?case by (simp add: kv update_fresh)
qed

lemma serialize_folder_eq:
  "serialize_folder sn dump X xs =
     map (\<lambda>i. (element_file_name (sn X) i, dump (xs ! i))) [0..<length xs]"
proof -
  let ?f = "\<lambda>(i, data). (element_file_name (sn X) i, dump data)"
  let ?items = "map (\<lambda>i. (element_file_name (sn X) i, dump (xs ! i))) [0..<length xs]"
  have items: "map ?f (enumerate 0 xs) = ?items"
    by (rule nth_equalityI) (simp_all add: nth_enumerate_eq)
  have "serialize_folder sn dump X xs
      = fold (\<lambda>(k, v). AList.update k v) (map ?f (enumerate 0 xs)) []"
    unfolding serialize_folder_def fold_map
    by (rule arg_cong [where f = "\<lambda>g. fold g (enumerate 0 xs) []"]) (auto simp: fun_eq_iff)
  also have "\<dots> = fold (\<lambda>(k, v). AList.update k v) ?items []"
    by (simp only: items)
  also have "\<dots> = ?items"
  proof -
    have "inj (element_file_name (sn X))"
      by (rule injI) (rule element_file_name_inj)
    then have "distinct (map (element_file_name (sn X)) [0..<length xs])"
      by (simp add: distinct_map inj_on_def)
    then have "distinct (map fst ?items)" by (simp add: comp_def)
    then show ?thesis using fold_update_fresh [of ?items "[]"] by simp
  qed
  finally show ?thesis .
qed

lemma serialize_field_eq:
  "serialize_field sg sn dump ds h acc =
     AList.update (entry_name sg sn h) (entry_value sn dump ds h) acc"
proof (cases h)
  case (Pair field ty)
  then show ?thesis by (cases ty) (simp_all add: Let_def)
qed

lemma serialize_eq:
  "serialize sg sn dump hints ds =
     fold (\<lambda>h. AList.update (entry_name sg sn h) (entry_value sn dump ds h)) hints []"
  unfolding serialize_def
  by (rule arg_cong [where f = "\<lambda>g. fold g hints []"]) (simp add: fun_eq_iff serialize_field_eq)

lemma remdups_drop_earlier:
  "x \<in> set zs \<Longrightarrow> remdups (ys @ x # zs) = remdups (ys @ zs)"
  by (induction ys) auto

lemma fold_update_keys:
  "map fst (fold (\<lambda>h. AList.update (k h) (v h)) hs acc)
     = first_occurrences (map fst acc @ map k hs)"
  if "distinct (map fst acc)"
  using that
proof (induction hs arbitrary: acc)
  case Nil
  then have "distinct (rev (map fst acc))" by simp
  then have "remdups (rev (map fst acc)) = rev (map fst acc)" by (rule distinct_remdups_id)
  then have "first_occurrences (map fst acc) = map fst acc"
    unfolding first_occurrences_def by (simp only: rev_rev_ident)
  then show ?case by simp
next
  case (Cons h hs)
  have d: "distinct (map fst (AList.update (k h) (v h) acc))"
    using Cons.prems by (rule distinct_update)
  have "first_occurrences (map fst (AList.update (k h) (v h) acc) @ map k hs)
      = first_occurrences (map fst acc @ k h # map k hs)"
    by (auto simp: update_keys first_occurrences_def remdups_drop_earlier)
  with Cons.IH [OF d] show ?case by simp
qed

lemma fold_update_other:
  "x \<notin> k ` set hs \<Longrightarrow>
   map_of (fold (\<lambda>h. AList.update (k h) (v h)) hs acc) x = map_of acc x"
  by (induction hs arbitrary: acc) (auto simp: update_conv')

lemma fold_update_lookup:
  "distinct (map k hs) \<Longrightarrow> h \<in> set hs \<Longrightarrow>
   map_of (fold (\<lambda>h. AList.update (k h) (v h)) hs acc) (k h) = Some (v h)"
proof (induction hs arbitrary: acc)
  case Nil
  then show ?case by simp
next
  case (Cons g hs)
  show ?case
  proof (cases "h = g")
    case True
    with Cons.prems have "k g \<notin> k ` set hs" by auto
    then show ?thesis using True by (simp add: fold_update_other update_conv')
  next
    case False
    with Cons show ?thesis by simp
  qed
qed

lemma fold_update_set:
  "set (fold (\<lambda>h. AList.update (k h) (v h)) hs acc)
     \<subseteq> set acc \<union> (\<lambda>h. (k h, v h)) ` set hs"
proof (induction hs arbitrary: acc)
  case Nil
  then show ?case by simp
next
  case (Cons h hs)
  have "set (AList.update (k h) (v h) acc) \<subseteq> insert (k h, v h) (set acc)"
    by (rule set_update_subset)
  with Cons [of "AList.update (k h) (v h) acc"] show ?case by auto
qed

lemma populate_attrs:
  "distinct (map fst a) \<Longrightarrow>
   list_attr (populate a ds) f = (case map_of a f of Some (Many xs) \<Rightarrow> xs | _ \<Rightarrow> list_attr ds f)
   \<and> single_attr (populate a ds) f = (case map_of a f of Some (One x) \<Rightarrow> x | _ \<Rightarrow> single_attr ds f)"
  unfolding populate_def
proof (induction a arbitrary: ds)
  case Nil
  then show ?case by simp
next
  case (Cons fv a)
  obtain g w where fv: "fv = (g, w)" by (cases fv)
  from Cons.prems fv have notin: "map_of a g = None"
    by (simp add: map_of_eq_None_iff)
  from Cons.prems have "distinct (map fst a)" by simp
  note IH = Cons.IH [OF this, of "setattr fv ds"]
  show ?case
    using IH notin unfolding fv by (cases w) (auto split: option.splits attr_value.splits)
qed

lemma populate_order:
  fixes ds :: "'v document"
  assumes "distinct (map fst a1)" "distinct (map fst a2)" "set a1 = set a2"
  shows "populate a1 ds = populate a2 ds"
proof -
  from assms have "map_of a1 = map_of a2" by (simp add: map_of_inject_set)
  then have "list_attr (populate a1 ds) = list_attr (populate a2 ds)"
    and "single_attr (populate a1 ds) = single_attr (populate a2 ds)"
    using populate_attrs [OF assms(1), of ds] populate_attrs [OF assms(2), of ds]
    by (simp_all add: fun_eq_iff)
  then show ?thesis by simp
qed


lemma serialize_lookup:
  "distinct (map (entry_name sg sn) hints) \<Longrightarrow> h \<in> set hints \<Longrightarrow>
   map_of (serialize sg sn dump hints ds) (entry_name sg sn h) = Some (entry_value sn dump ds h)"
  unfolding serialize_eq by (rule fold_update_lookup)

lemma folder_lookup:
  "i < n \<Longrightarrow>
   map_of (map (\<lambda>i. (element_file_name s i, g i)) [0..<n]) (element_file_name s i) = Some (g i)"
proof (rule map_of_is_SomeI)
  have "inj (element_file_name s)"
    by (rule injI) (rule element_file_name_inj)
  then have "distinct (map (element_file_name s) [0..<n])"
    by (simp add: distinct_map inj_on_def)
  then show "distinct (map fst (map (\<lambda>i. (element_file_name s i, g i)) [0..<n]))"
    by (simp add: comp_def)
  show "i < n \<Longrightarrow> (element_file_name s i, g i) \<in> set (map (\<lambda>i. (element_file_name s i, g i)) [0..<n])"
    by auto
qed

text \<open>
  C1. Provided the fields of the document write to pairwise distinct top-level names:
  for every field declared \<open>list[X]\<close> the result holds, under the key
  \<open>X.structure_group()\<close>, one folder whose files are exactly the field's elements,
  element 0 under \<open>X.structure_name() + ".json"\<close> and element \<open>i > 0\<close> under
  \<open>X.structure_name() + "_" + str(i) + ".json"\<close>; every other field is a file under
  \<open>fieldtype.structure_name() + ".json"\<close> at the top level.
\<close>

theorem serialize_layout:
  assumes "distinct (map (entry_name sg sn) hints)"
  shows
    "(\<forall>field X. (field, ListOf X) \<in> set hints \<longrightarrow>
        map_of (serialize sg sn dump hints ds) (sg X) =
          Some (Folder (map (\<lambda>i. (element_file_name (sn X) i, dump (list_attr ds field ! i)))
                            [0..<length (list_attr ds field)])))
     \<and> (\<forall>field X i. (field, ListOf X) \<in> set hints \<and> i < length (list_attr ds field) \<longrightarrow>
        (\<exists>files. map_of (serialize sg sn dump hints ds) (sg X) = Some (Folder files)
           \<and> length files = length (list_attr ds field)
           \<and> map_of files (if i = 0 then sn X @ ''.json''
                            else sn X @ ''_'' @ str_of_nat i @ ''.json'')
               = Some (dump (list_attr ds field ! i))))
     \<and> (\<forall>field T. (field, Single T) \<in> set hints \<longrightarrow>
        map_of (serialize sg sn dump hints ds) (sn T @ ''.json'') =
          Some (File (dump (single_attr ds field))))"
proof (intro conjI allI impI)
  fix field X
  assume "(field, ListOf X) \<in> set hints"
  from serialize_lookup [OF assms this, of dump ds]
  show "map_of (serialize sg sn dump hints ds) (sg X) =
          Some (Folder (map (\<lambda>i. (element_file_name (sn X) i, dump (list_attr ds field ! i)))
                            [0..<length (list_attr ds field)]))"
    by (simp add: serialize_folder_eq)
next
  fix field X i
  assume a: "(field, ListOf X) \<in> set hints \<and> i < length (list_attr ds field)"
  let ?files = "map (\<lambda>i. (element_file_name (sn X) i, dump (list_attr ds field ! i)))
                    [0..<length (list_attr ds field)]"
  from a serialize_lookup [OF assms, of "(field, ListOf X)" dump ds]
  have "map_of (serialize sg sn dump hints ds) (sg X) = Some (Folder ?files)"
    by (simp add: serialize_folder_eq)
  moreover have "length ?files = length (list_attr ds field)" by simp
  moreover from a have "map_of ?files (element_file_name (sn X) i)
      = Some (dump (list_attr ds field ! i))"
    by (intro folder_lookup) simp
  ultimately show "\<exists>files. map_of (serialize sg sn dump hints ds) (sg X) = Some (Folder files)
           \<and> length files = length (list_attr ds field)
           \<and> map_of files (if i = 0 then sn X @ ''.json''
                            else sn X @ ''_'' @ str_of_nat i @ ''.json'')
               = Some (dump (list_attr ds field ! i))"
    unfolding element_file_name_cases by blast
next
  fix field T
  assume "(field, Single T) \<in> set hints"
  from serialize_lookup [OF assms this, of dump ds]
  show "map_of (serialize sg sn dump hints ds) (sn T @ ''.json'') =
          Some (File (dump (single_attr ds field)))"
    by simp
qed

theorem serialize_layout_witness:
  "distinct (map (entry_name (\<lambda>t. t @ ''s'') id)
               [(''a'', ListOf ''waternet''), (''b'', Single ''soil'')])
   \<and> map_of (serialize (\<lambda>t. t @ ''s'') id id
               [(''a'', ListOf ''waternet''), (''b'', Single ''soil'')]
               \<lparr>list_attr = (\<lambda>f. [''x'', ''y'']), single_attr = (\<lambda>f. ''z'')\<rparr>) ''waternets''
       = Some (Folder [(''waternet.json'', ''x''), (''waternet_1.json'', ''y'')])
   \<and> map_of (serialize (\<lambda>t. t @ ''s'') id id
               [(''a'', ListOf ''waternet''), (''b'', Single ''soil'')]
               \<lparr>list_attr = (\<lambda>f. [''x'', ''y'']), single_attr = (\<lambda>f. ''z'')\<rparr>) ''soil.json''
       = Some (File ''z'')"
proof -
  let ?hints = "[(''a'', ListOf ''waternet''), (''b'', Single ''soil'')]"
  let ?ds = "\<lparr>list_attr = (\<lambda>f. [''x'', ''y'']), single_attr = (\<lambda>f. ''z'')\<rparr> :: string document"
  have d: "distinct (map (entry_name (\<lambda>t. t @ ''s'') id) ?hints)" by simp
  note th = serialize_layout [OF d, of id ?ds]
  have one: "str_of_nat (Suc 0) = ''1''"
    by code_simp
  have up: "[0..<2] = [0, 1]" by (simp add: upt_rec)
  from th [THEN conjunct1, rule_format, of "''a''" "''waternet''"]
  have "map_of (serialize (\<lambda>t. t @ ''s'') id id ?hints ?ds) ''waternets''
      = Some (Folder [(''waternet.json'', ''x''), (''waternet_1.json'', ''y'')])"
    by (simp add: element_file_name_cases one up)
  moreover from th [THEN conjunct2, THEN conjunct2, rule_format, of "''b''" "''soil''"]
  have "map_of (serialize (\<lambda>t. t @ ''s'') id id ?hints ?ds) ''soil.json'' = Some (File ''z'')"
    by simp
  ultimately show ?thesis using d by simp
qed

lemma serialize_last_writer:
  assumes "hints = before @ h # later"
    and "entry_name sg sn h \<notin> entry_name sg sn ` set later"
  shows "map_of (serialize sg sn dump hints ds) (entry_name sg sn h)
           = Some (entry_value sn dump ds h)"
proof -
  let ?k = "entry_name sg sn" and ?v = "entry_value sn dump ds"
  let ?acc = "AList.update (?k h) (?v h) (fold (\<lambda>h. AList.update (?k h) (?v h)) before [])"
  have "serialize sg sn dump hints ds = fold (\<lambda>h. AList.update (?k h) (?v h)) later ?acc"
    unfolding serialize_eq assms(1) by simp
  moreover have "map_of (fold (\<lambda>h. AList.update (?k h) (?v h)) later ?acc) (?k h)
      = map_of ?acc (?k h)"
    using assms(2) by (rule fold_update_other)
  moreover have "map_of ?acc (?k h) = Some (?v h)"
    by (simp add: update_conv')
  ultimately show ?thesis by simp
qed

lemma serialize_distinct:
  assumes "distinct (map (entry_name sg sn) hints)"
  shows "serialize sg sn dump hints ds
           = map (\<lambda>h. (entry_name sg sn h, entry_value sn dump ds h)) hints"
proof -
  let ?kv = "\<lambda>h. (entry_name sg sn h, entry_value sn dump ds h)"
  have "serialize sg sn dump hints ds = fold (\<lambda>(k, v). AList.update k v) (map ?kv hints) []"
    unfolding serialize_eq fold_map
    by (rule arg_cong [where f = "\<lambda>g. fold g hints []"]) (auto simp: fun_eq_iff)
  also have "\<dots> = [] @ map ?kv hints"
    using assms by (intro fold_update_fresh) (simp_all add: comp_def)
  finally show ?thesis by simp
qed

lemma entry_value_reads:
  assumes "\<And>field X. h = (field, ListOf X) \<Longrightarrow> list_attr d2 field = list_attr d1 field"
    and "\<And>field T. h = (field, Single T) \<Longrightarrow> single_attr d2 field = single_attr d1 field"
  shows "entry_value sn dump d2 h = entry_value sn dump d1 h"
proof (cases h)
  case (Pair field ty)
  with assms show ?thesis by (cases ty) simp_all
qed

lemma serialize_reads:
  assumes "\<And>field X. (field, ListOf X) \<in> set hints \<Longrightarrow> list_attr d2 field = list_attr d1 field"
    and "\<And>field T. (field, Single T) \<in> set hints \<Longrightarrow> single_attr d2 field = single_attr d1 field"
  shows "serialize sg sn dump hints d2 = serialize sg sn dump hints d1"
proof -
  have "entry_value sn dump d2 h = entry_value sn dump d1 h" if "h \<in> set hints" for h
    using that assms by (intro entry_value_reads) auto
  then have "fold (\<lambda>h. AList.update (entry_name sg sn h) (entry_value sn dump d2 h)) hints acc
      = fold (\<lambda>h. AList.update (entry_name sg sn h) (entry_value sn dump d1 h)) hints acc" for acc
    by (intro fold_cong) simp_all
  then show ?thesis unfolding serialize_eq .
qed

text \<open>
  C3. The top-level keys of the serialized structure are the names the fields write to,
  in declaration order, each at the place of its first occurrence. When the names are
  pairwise distinct the whole result is the list, in declaration order, of one entry per
  field: for a field declared \<open>list[X]\<close> the folder whose files are the field's elements
  in element order (element \<open>i\<close> under the \<open>i\<close>-th file name), for any other field its
  file. Whatever the names, a list field that no later field overwrites has exactly that
  folder under its key, and every folder of the result is such a list of files in
  element order. The result depends on the document only through the values of the
  declared fields: the key sequence is the same for any two documents, a document with
  the same field values gives the same result, and so does a document populated by the
  same attribute assignments in a different order.
\<close>

theorem serialize_order:
  "map fst (serialize sg sn dump hints ds) = first_occurrences (map (entry_name sg sn) hints)
   \<and> (distinct (map (entry_name sg sn) hints) \<longrightarrow>
        map fst (serialize sg sn dump hints ds) = map (entry_name sg sn) hints
        \<and> serialize sg sn dump hints ds =
            map (\<lambda>(field, ty). case ty of
                   ListOf X \<Rightarrow>
                     (sg X, Folder (map (\<lambda>i. (element_file_name (sn X) i,
                                               dump (list_attr ds field ! i)))
                                        [0..<length (list_attr ds field)]))
                 | Single T \<Rightarrow> (sn T @ ''.json'', File (dump (single_attr ds field))))
                hints)
   \<and> (\<forall>before field X later.
          hints = before @ (field, ListOf X) # later
          \<and> sg X \<notin> entry_name sg sn ` set later \<longrightarrow>
          map_of (serialize sg sn dump hints ds) (sg X) =
            Some (Folder (map (\<lambda>i. (element_file_name (sn X) i, dump (list_attr ds field ! i)))
                              [0..<length (list_attr ds field)])))
   \<and> (\<forall>key files. (key, Folder files) \<in> set (serialize sg sn dump hints ds) \<longrightarrow>
        (\<exists>field X. (field, ListOf X) \<in> set hints \<and> key = sg X
           \<and> files = map (\<lambda>i. (element_file_name (sn X) i, dump (list_attr ds field ! i)))
                         [0..<length (list_attr ds field)]))
   \<and> map fst (serialize sg sn dump hints ds) = map fst (serialize sg sn dump hints ds')
   \<and> (\<forall>d2. (\<forall>field X. (field, ListOf X) \<in> set hints \<longrightarrow> list_attr d2 field = list_attr ds field)
            \<and> (\<forall>field T. (field, Single T) \<in> set hints \<longrightarrow>
                  single_attr d2 field = single_attr ds field) \<longrightarrow>
          serialize sg sn dump hints d2 = serialize sg sn dump hints ds)
   \<and> (distinct (map fst a1) \<and> distinct (map fst a2) \<and> set a1 = set a2 \<longrightarrow>
        serialize sg sn dump hints (populate a1 ds) = serialize sg sn dump hints (populate a2 ds))"
proof -
  let ?files = "\<lambda>field X. map (\<lambda>i. (element_file_name (sn X) i, dump (list_attr ds field ! i)))
                              [0..<length (list_attr ds field)]"
  let ?item = "\<lambda>(field, ty). case ty of
                   ListOf X \<Rightarrow>
                     (sg X, Folder (map (\<lambda>i. (element_file_name (sn X) i,
                                               dump (list_attr ds field ! i)))
                                        [0..<length (list_attr ds field)]))
                 | Single T \<Rightarrow> (sn T @ ''.json'', File (dump (single_attr ds field)))"
  have keys: "map fst (serialize sg sn dump hints d)
      = first_occurrences (map (entry_name sg sn) hints)" for d
    unfolding serialize_eq using fold_update_keys [of "[]"] by simp
  have dist: "first_occurrences xs = xs" if "distinct xs" for xs :: "string list"
  proof -
    from that have "remdups (rev xs) = rev xs" by (intro distinct_remdups_id) simp
    then show ?thesis unfolding first_occurrences_def by (simp only: rev_rev_ident)
  qed
  have item: "(entry_name sg sn h, entry_value sn dump ds h) = ?item h" for h
  proof (cases h)
    case (Pair field ty)
    then show ?thesis by (cases ty) (simp_all add: serialize_folder_eq)
  qed
  have whole: "serialize sg sn dump hints ds = map ?item hints"
    if "distinct (map (entry_name sg sn) hints)"
    unfolding serialize_distinct [OF that] using item by simp
  have last_writer: "map_of (serialize sg sn dump hints ds) (sg X) = Some (Folder (?files field X))"
    if "hints = before @ (field, ListOf X) # later \<and> sg X \<notin> entry_name sg sn ` set later"
    for before field X later
    using that serialize_last_writer [of hints before "(field, ListOf X)" later sg sn dump ds]
    by (simp add: serialize_folder_eq)
  have folders: "\<exists>field X. (field, ListOf X) \<in> set hints \<and> key = sg X
           \<and> files = ?files field X"
    if "(key, Folder files) \<in> set (serialize sg sn dump hints ds)" for key files
  proof -
    from that fold_update_set [of "entry_name sg sn" "entry_value sn dump ds" hints "[]"]
    obtain h where h: "h \<in> set hints" "key = entry_name sg sn h"
      "Folder files = entry_value sn dump ds h"
      unfolding serialize_eq by auto
    obtain field ty where hf: "h = (field, ty)" by (cases h)
    show ?thesis
    proof (cases ty)
      case (ListOf X)
      with h hf show ?thesis by (auto simp: serialize_folder_eq)
    next
      case (Single T)
      with h hf show ?thesis by simp
    qed
  qed
  show ?thesis
  proof (intro conjI allI impI)
    show "map fst (serialize sg sn dump hints ds)
        = first_occurrences (map (entry_name sg sn) hints)"
      by (rule keys)
    show "map fst (serialize sg sn dump hints ds) = map (entry_name sg sn) hints"
      if "distinct (map (entry_name sg sn) hints)"
      using keys [of ds] dist [OF that] by simp
    show "serialize sg sn dump hints ds = map ?item hints"
      if "distinct (map (entry_name sg sn) hints)"
      using that by (rule whole)
    show "map_of (serialize sg sn dump hints ds) (sg X) = Some (Folder (?files field X))"
      if "hints = before @ (field, ListOf X) # later \<and> sg X \<notin> entry_name sg sn ` set later"
      for before field X later
      using that by (rule last_writer)
    show "\<exists>field X. (field, ListOf X) \<in> set hints \<and> key = sg X \<and> files = ?files field X"
      if "(key, Folder files) \<in> set (serialize sg sn dump hints ds)" for key files
      using that by (rule folders)
    show "map fst (serialize sg sn dump hints ds) = map fst (serialize sg sn dump hints ds')"
      by (simp only: keys)
    show "serialize sg sn dump hints d2 = serialize sg sn dump hints ds"
      if "(\<forall>field X. (field, ListOf X) \<in> set hints \<longrightarrow> list_attr d2 field = list_attr ds field)
            \<and> (\<forall>field T. (field, Single T) \<in> set hints \<longrightarrow>
                  single_attr d2 field = single_attr ds field)" for d2
      using that by (intro serialize_reads) blast+
    show "serialize sg sn dump hints (populate a1 ds) = serialize sg sn dump hints (populate a2 ds)"
      if "distinct (map fst a1) \<and> distinct (map fst a2) \<and> set a1 = set a2"
      using that populate_order [of a1 a2 ds] by simp
  qed
qed

theorem serialize_order_witness:
  "serialize (\<lambda>t. t @ ''s'') id id
     [(''a'', ListOf ''waternet''), (''b'', Single ''soil''), (''c'', ListOf ''load'')]
     (populate [(''b'', One ''z''), (''a'', Many [''x'', ''y''])]
        \<lparr>list_attr = (\<lambda>f. []), single_attr = (\<lambda>f. [])\<rparr>)
     = [(''waternets'', Folder [(''waternet.json'', ''x''), (''waternet_1.json'', ''y'')]),
        (''soil.json'', File ''z''),
        (''loads'', Folder [])]
   \<and> serialize (\<lambda>t. t @ ''s'') id id
        [(''a'', ListOf ''waternet''), (''b'', Single ''soil''), (''c'', ListOf ''load'')]
        (populate [(''a'', Many [''x'', ''y'']), (''b'', One ''z'')]
           \<lparr>list_attr = (\<lambda>f. []), single_attr = (\<lambda>f. [])\<rparr>)
     = [(''waternets'', Folder [(''waternet.json'', ''x''), (''waternet_1.json'', ''y'')]),
        (''soil.json'', File ''z''),
        (''loads'', Folder [])]
   \<and> map_of (serialize id id id
        [(''a'', ListOf ''g''), (''b'', ListOf ''g'')]
        \<lparr>list_attr = (\<lambda>f. if f = ''b'' then [''u'', ''v''] else [''w'']),
          single_attr = (\<lambda>f. [])\<rparr>) ''g''
     = Some (Folder [(''g.json'', ''u''), (''g_1.json'', ''v'')])"
proof -
  let ?hints = "[(''a'', ListOf ''waternet''), (''b'', Single ''soil''), (''c'', ListOf ''load'')]"
  let ?ds = "\<lparr>list_attr = (\<lambda>f. []), single_attr = (\<lambda>f. [])\<rparr> :: string document"
  let ?a1 = "[(''b'', One ''z''), (''a'', Many [''x'', ''y''])]"
  let ?a2 = "[(''a'', Many [''x'', ''y'']), (''b'', One ''z'')]"
  let ?h2 = "[(''a'', ListOf ''g''), (''b'', ListOf ''g'')]"
  let ?d2 = "\<lparr>list_attr = (\<lambda>f. if f = ''b'' then [''u'', ''v''] else [''w'']),
              single_attr = (\<lambda>f. [])\<rparr> :: string document"
  note th = serialize_order [of "\<lambda>t. t @ ''s''" id id ?hints "populate ?a1 ?ds" _ ?a1 ?a2]
  note th2 = serialize_order [of "\<lambda>t. t @ ''s''" id id ?hints ?ds _ ?a1 ?a2]
  note th3 = serialize_order [of id id id ?h2 ?d2]
  have one: "str_of_nat (Suc 0) = ''1''"
    by code_simp
  have up: "[0..<2] = [0, 1]" by (simp add: upt_rec)
  from th [THEN conjunct2, THEN conjunct1]
  have first: "serialize (\<lambda>t. t @ ''s'') id id ?hints (populate ?a1 ?ds)
      = [(''waternets'', Folder [(''waternet.json'', ''x''), (''waternet_1.json'', ''y'')]),
         (''soil.json'', File ''z''), (''loads'', Folder [])]"
    by (simp add: populate_def element_file_name_cases one up)
  from th2 [THEN conjunct2, THEN conjunct2, THEN conjunct2, THEN conjunct2, THEN conjunct2,
            THEN conjunct2]
  have "serialize (\<lambda>t. t @ ''s'') id id ?hints (populate ?a1 ?ds)
      = serialize (\<lambda>t. t @ ''s'') id id ?hints (populate ?a2 ?ds)"
    by auto
  with first have second: "serialize (\<lambda>t. t @ ''s'') id id ?hints (populate ?a2 ?ds)
      = [(''waternets'', Folder [(''waternet.json'', ''x''), (''waternet_1.json'', ''y'')]),
         (''soil.json'', File ''z''), (''loads'', Folder [])]"
    by simp
  from th3 [THEN conjunct2, THEN conjunct2, THEN conjunct1, rule_format,
            of "[(''a'', ListOf ''g'')]" "''b''" "''g''" "[]"]
  have third: "map_of (serialize id id id ?h2 ?d2) ''g''
      = Some (Folder [(''g.json'', ''u''), (''g_1.json'', ''v'')])"
    by (simp add: element_file_name_cases one up)
  from first second third show ?thesis by (intro conjI)
qed

subsection \<open>Writing to a directory\<close>


















































text \<open>
  A key with a component \<open>..\<close> leaves the given path: the folder and its file are
  created beside \<open>out\<close>, and nothing is stored under the unresolved path.
\<close>

lemma write_parent_component:
  "fst (DStabilityInputSerializer_write (\<lambda>t. ''../'' @ t) id id
          [(''a'', ListOf ''sib'')]
          \<lparr>list_attr = (\<lambda>f. [''x'']), single_attr = (\<lambda>f. [])\<rparr>
          (Map.empty([''out''] \<mapsto> Dir)) [''out''])
     = ((Map.empty([''out''] \<mapsto> Dir))([''sib''] \<mapsto> Dir))([''sib'', ''sib.json''] \<mapsto> RegFile ''x'')
   \<and> snd (DStabilityInputSerializer_write (\<lambda>t. ''../'' @ t) id id
          [(''a'', ListOf ''sib'')]
          \<lparr>list_attr = (\<lambda>f. [''x'']), single_attr = (\<lambda>f. [])\<rparr>
          (Map.empty([''out''] \<mapsto> Dir)) [''out''])
     = Inr [''out'']"
proof -
  have sdv: "serialize (\<lambda>t. ''../'' @ t) id id [(''a'', ListOf ''sib'')]
        \<lparr>list_attr = (\<lambda>f. [''x'']), single_attr = (\<lambda>f. [])\<rparr>
      = [(''../sib'', Folder [(''sib.json'', ''x'')])]"
    by code_simp
  have parts: "path_parts ''../sib'' = [''..'', ''sib'']"
    "path_parts ''sib.json'' = [''sib.json'']"
    by code_simp+
  show ?thesis
    unfolding DStabilityInputSerializer_write_def Let_def sdv
    by (simp add: path_join_def parts mkdir_parents.simps os_mkdir_def locate_def step_def
          node_at_def open_wb_write_def encode_utf8_def)
qed

subsection \<open>Writing to an archive\<close>








end
